theory Spec2Isabelle
  imports Complex_Main
begin

section \<open>The pod metrics table: from metrics series to table rows\<close>

text \<open>
  The development embeds the module that turns the series returned by the metrics
  explorer into the rows of the pod metrics table (\<open>usePodMetricsTable\<close>,
  \<open>seriesToPodNodeMetricsRow\<close>, \<open>calculateMetricAverages\<close>,
  \<open>collectMetricValues\<close>, \<open>unpackMetrics\<close>).

  A JavaScript \<open>number\<close> is embedded as an exact real: rounding of IEEE doubles,
  \<open>NaN\<close> and the infinities are outside the model. A metric that is \<open>null\<close> is
  \<open>None\<close>; so is an \<open>id\<close> or a \<open>name\<close> that is \<open>undefined\<close>.
\<close>

type_synonym number = real

subsection \<open>Data\<close>

text \<open>The string-literal union \<open>PodMetricsField\<close>, with the literal each tag stands for.\<close>

datatype PodMetricsField =
    KubernetesPodStartTime
  | KubernetesPodCpuUsageLimitPct
  | KubernetesPodMemoryUsageBytes

fun fieldName :: "PodMetricsField \<Rightarrow> string" where
  "fieldName KubernetesPodStartTime = ''kubernetes.pod.start_time''"
| "fieldName KubernetesPodCpuUsageLimitPct = ''kubernetes.pod.cpu.usage.limit.pct''"
| "fieldName KubernetesPodMemoryUsageBytes = ''kubernetes.pod.memory.usage.bytes''"

text \<open>
  \<open>MetricsExplorerSeries\<close> as the transform reads it: \<open>series.keys ?? []\<close> shows that
  \<open>keys\<close> may be absent, \<open>series.rows.length\<close> that \<open>rows\<close> is an array. The type of a
  row (\<open>MetricsExplorerRow\<close>) is declared in another module and is read only through
  \<open>unpackMetric\<close>, so it stays a type parameter.
\<close>

record 'row MetricsExplorerSeries =
  keys :: "string list option"
  rows :: "'row list"

text \<open>
  \<open>unpackMetric = makeUnpackMetric(metricByField)\<close> comes from the shared module. The
  functions below take it as their first argument; all that is used of it is its result
  type \<open>number | null\<close>, as the return type of \<open>unpackMetrics\<close> states it.
\<close>

type_synonym 'row UnpackMetric = "'row \<Rightarrow> PodMetricsField \<Rightarrow> number option"

text \<open>The object \<open>unpackMetrics\<close> returns.\<close>

record UnpackedMetrics =
  startTime :: "number option"
  averageCpuUsagePercent :: "number option"
  averageMemoryUsageMegabytes :: "number option"

text \<open>The three arrays \<open>collectMetricValues\<close> fills and returns.\<close>

record MetricValues =
  startTimeValues :: "number list"
  averageCpuUsagePercentValues :: "number list"
  averageMemoryUsageMegabytesValues :: "number list"

text \<open>
  The object \<open>calculateMetricAverages\<close> returns, and \<open>PodNodeMetricsRow\<close>, which the
  transform builds by adding \<open>id\<close> and \<open>name\<close> to it (the field \<open>id\<close> is written
  \<open>id'\<close>). Destructuring an array that is too short leaves \<open>id\<close> or \<open>name\<close>
  \<open>undefined\<close>, hence the option.
\<close>

record MetricAverages =
  uptime :: "number option"
  averageCpuUsagePercent :: "number option"
  averageMemoryUsageMegabytes :: "number option"

record PodNodeMetricsRow = MetricAverages +
  id' :: "string option"
  name :: "string option"

subsection \<open>Helpers of the shared module\<close>

text \<open>
  Modelled from the spec: \<open>averageOfValues\<close> is imported from the shared module, whose
  source is not at hand. The specification calls its result the arithmetic mean of the
  collected values. Every call in this module is guarded by \<open>values.length !== 0\<close>;
  on the empty array JavaScript would give \<open>NaN\<close>, which is outside the model.
\<close>

definition averageOfValues :: "number list \<Rightarrow> number" where
  "averageOfValues vs = sum_list vs / real (length vs)"

text \<open>
  Modelled from the spec: \<open>scaleUpPercentage\<close> is imported from the shared module, whose
  source is not at hand. The specification says that it scales a fraction to a
  percentage.
\<close>

definition scaleUpPercentage :: "number \<Rightarrow> number" where
  "scaleUpPercentage unscaled = unscaled * 100"

subsection \<open>JavaScript primitives\<close>

text \<open>\<open>Math.floor\<close>, the result again a number.\<close>

definition Math_floor :: "number \<Rightarrow> number" where
  "Math_floor x = real_of_int \<lfloor>x\<rfloor>"

text \<open>\<open>Array.prototype.push\<close> of one element, returning the array after the call.\<close>

definition push :: "'a list \<Rightarrow> 'a \<Rightarrow> 'a list" where
  "push xs x = xs @ [x]"

text \<open>
  The array pattern \<open>const [id, name] = arr\<close>: the first two elements, each
  \<open>undefined\<close> where the array ends before it.
\<close>

fun destructure2 :: "'a list \<Rightarrow> 'a option \<times> 'a option" where
  "destructure2 [] = (None, None)"
| "destructure2 [a] = (Some a, None)"
| "destructure2 (a # b # rest) = (Some a, Some b)"

text \<open>\<open>x ?? d\<close>: \<open>d\<close> when \<open>x\<close> is \<open>null\<close> or \<open>undefined\<close>.\<close>

definition nullish :: "'a option \<Rightarrow> 'a \<Rightarrow> 'a" where
  "nullish x d = (case x of None \<Rightarrow> d | Some v \<Rightarrow> v)"

subsection \<open>The transform\<close>

definition unpackMetrics :: "'row UnpackMetric \<Rightarrow> 'row \<Rightarrow> UnpackedMetrics" where
  "unpackMetrics unpackMetric row =
     \<lparr>startTime = unpackMetric row KubernetesPodStartTime,
      UnpackedMetrics.averageCpuUsagePercent = unpackMetric row KubernetesPodCpuUsageLimitPct,
      UnpackedMetrics.averageMemoryUsageMegabytes = unpackMetric row KubernetesPodMemoryUsageBytes\<rparr>"

text \<open>
  The callback of \<open>rows.forEach\<close> in \<open>collectMetricValues\<close>: the three arrays before
  the row, and after it.
\<close>

definition collectRow :: "'row UnpackMetric \<Rightarrow> 'row \<Rightarrow> MetricValues \<Rightarrow> MetricValues" where
  "collectRow unpackMetric row acc =
     (let m = unpackMetrics unpackMetric row;
          acc1 = (case startTime m of
                    None \<Rightarrow> acc
                  | Some v \<Rightarrow> acc\<lparr>startTimeValues := push (startTimeValues acc) v\<rparr>);
          acc2 = (case UnpackedMetrics.averageCpuUsagePercent m of
                    None \<Rightarrow> acc1
                  | Some v \<Rightarrow> acc1\<lparr>averageCpuUsagePercentValues :=
                                     push (averageCpuUsagePercentValues acc1) v\<rparr>);
          acc3 = (case UnpackedMetrics.averageMemoryUsageMegabytes m of
                    None \<Rightarrow> acc2
                  | Some v \<Rightarrow> acc2\<lparr>averageMemoryUsageMegabytesValues :=
                                     push (averageMemoryUsageMegabytesValues acc2) v\<rparr>)
      in acc3)"

definition collectMetricValues :: "'row UnpackMetric \<Rightarrow> 'row list \<Rightarrow> MetricValues" where
  "collectMetricValues unpackMetric rs =
     fold (collectRow unpackMetric) rs
       \<lparr>startTimeValues = [],
        averageCpuUsagePercentValues = [],
        averageMemoryUsageMegabytesValues = []\<rparr>"

text \<open>
  \<open>calculateMetricAverages\<close>. The argument \<open>now\<close> is the value \<open>Date.now()\<close> returns
  in this call. \<open>startTimeValues.at(-1)\<close> is the last element; it is read only under the
  guard \<open>startTimeValues.length !== 0\<close>.
\<close>

definition calculateMetricAverages ::
    "'row UnpackMetric \<Rightarrow> number \<Rightarrow> 'row list \<Rightarrow> MetricAverages" where
  "calculateMetricAverages unpackMetric now rs =
     (let vals = collectMetricValues unpackMetric rs;
          uptime0 =
            (if length (startTimeValues vals) \<noteq> 0
             then Some (now - last (startTimeValues vals))
             else None);
          averageCpuUsagePercent0 =
            (if length (averageCpuUsagePercentValues vals) \<noteq> 0
             then Some (scaleUpPercentage (averageOfValues (averageCpuUsagePercentValues vals)))
             else None);
          averageMemoryUsageMegabytes0 =
            (if length (averageMemoryUsageMegabytesValues vals) \<noteq> 0
             then (let averageInBytes = averageOfValues (averageMemoryUsageMegabytesValues vals);
                       bytesPerMegabyte = 1000000
                   in Some (Math_floor (averageInBytes / bytesPerMegabyte)))
             else None)
      in \<lparr>uptime = uptime0,
          averageCpuUsagePercent = averageCpuUsagePercent0,
          averageMemoryUsageMegabytes = averageMemoryUsageMegabytes0\<rparr>)"

definition rowWithoutMetrics :: "string option \<Rightarrow> string option \<Rightarrow> PodNodeMetricsRow" where
  "rowWithoutMetrics i n =
     \<lparr>uptime = None,
      averageCpuUsagePercent = None,
      averageMemoryUsageMegabytes = None,
      id' = i,
      name = n\<rparr>"

definition seriesToPodNodeMetricsRow ::
    "'row UnpackMetric \<Rightarrow> number \<Rightarrow> 'row MetricsExplorerSeries \<Rightarrow> PodNodeMetricsRow" where
  "seriesToPodNodeMetricsRow unpackMetric now series =
     (case destructure2 (nullish (keys series) []) of
        (i, n) \<Rightarrow>
          if length (rows series) = 0 then rowWithoutMetrics i n
          else (let m = calculateMetricAverages unpackMetric now (rows series)
                in \<lparr>uptime = uptime m,
                    averageCpuUsagePercent = averageCpuUsagePercent m,
                    averageMemoryUsageMegabytes = averageMemoryUsageMegabytes m,
                    id' = i,
                    name = n\<rparr>))"

section \<open>The hook\<close>

subsection \<open>The query configuration\<close>

text \<open>
  \<open>podMetricsQueryConfig\<close>, an object literal of the module. Nested objects are
  association lists of their keys; \<open>metricsMap\<close> is keyed by the three fields.
\<close>

record MetricsMapEntry =
  aggregation :: string
  field :: string

record MetricsQueryOptions =
  sourceFilter :: "(string \<times> (string \<times> string) list) list"
  groupByField :: "string list"
  metricsMap :: "(PodMetricsField \<times> MetricsMapEntry) list"

definition podMetricsQueryConfig :: MetricsQueryOptions where
  "podMetricsQueryConfig =
     \<lparr>sourceFilter = [(''term'', [(''event.dataset'', ''kubernetes.pod'')])],
      groupByField = [''kubernetes.pod.uid'', ''kubernetes.pod.name''],
      metricsMap =
        [(KubernetesPodStartTime,
            \<lparr>aggregation = ''max'', field = ''kubernetes.pod.start_time''\<rparr>),
         (KubernetesPodCpuUsageLimitPct,
            \<lparr>aggregation = ''avg'', field = ''kubernetes.pod.cpu.usage.limit.pct''\<rparr>),
         (KubernetesPodMemoryUsageBytes,
            \<lparr>aggregation = ''avg'', field = ''kubernetes.pod.memory.usage.bytes''\<rparr>)]\<rparr>"

subsection \<open>The objects the hook takes, passes on and returns\<close>

text \<open>
  \<open>SortState\<close>: the hook initialises it with the string literals
  \<open>'averageCpuUsagePercent'\<close> and \<open>'desc'\<close>.
\<close>

record SortState =
  field :: string
  direction :: string

text \<open>
  The argument of the hook, destructured into \<open>timerange\<close> and \<open>filterClauseDsl\<close>. The
  hook only passes the two on, so their types are parameters.
\<close>

record ('tr, 'f) UseNodeMetricsTableOptions =
  timerange :: 'tr
  filterClauseDsl :: 'f

text \<open>
  What \<open>metricsToApiOptions\<close> returns is read through its field \<open>options\<close> only; what
  \<open>useInfrastructureNodeMetrics\<close> returns, through \<open>data\<close> and \<open>isLoading\<close> only. Both
  are record schemes below, so either object may hold more fields than the hook reads.
\<close>

record 'o ApiOptions =
  options :: 'o

record 'd NodeMetricsResult =
  data :: 'd
  isLoading :: bool

text \<open>
  The object the hook hands to \<open>useInfrastructureNodeMetrics\<close>. The transform reads the
  clock, so in the embedding it takes the clock reading as its first argument.
\<close>

record ('o, 'tr, 'series, 'row) UseInfrastructureNodeMetricsOptions =
  metricsExplorerOptions :: 'o
  timerange :: 'tr
  transform :: "number \<Rightarrow> 'series \<Rightarrow> 'row"
  sortState :: SortState
  currentPageIndex :: number

subsection \<open>React state\<close>

text \<open>
  What React keeps for the two \<open>useState\<close> calls of the hook between renders. A cell is
  \<open>None\<close> until a setter has stored a value in it.
\<close>

record HookMemory =
  currentPageIndexCell :: "number option"
  sortStateCell :: "SortState option"

definition firstRender :: HookMemory where
  "firstRender = \<lparr>currentPageIndexCell = None, sortStateCell = None\<rparr>"

text \<open>
  \<open>useState(initialState)\<close> on a cell: the current state (the initial state while the
  cell is empty) and the setter, which gives the cell's next content.
\<close>

definition useState :: "'a \<Rightarrow> 'a option \<Rightarrow> 'a \<times> ('a \<Rightarrow> 'a option)" where
  "useState initialState cell = (nullish cell initialState, \<lambda>v. Some v)"

text \<open>
  \<open>useMemo(factory, deps)\<close>: the value of the factory. The factory of the hook reads
  nothing but \<open>filterClauseDsl\<close>, its one dependency, so the memoised value is the value
  of the call.
\<close>

definition useMemo :: "(unit \<Rightarrow> 'a) \<Rightarrow> 'a" where
  "useMemo factory = factory ()"

subsection \<open>usePodMetricsTable\<close>

text \<open>
  The object the hook returns. A setter, called with a value, changes React's memory for
  the next render.
\<close>

record ('d, 'tr) PodMetricsTable =
  currentPageIndex :: number
  data :: 'd
  isLoading :: bool
  setCurrentPageIndex :: "number \<Rightarrow> HookMemory \<Rightarrow> HookMemory"
  setSortState :: "SortState \<Rightarrow> HookMemory \<Rightarrow> HookMemory"
  sortState :: SortState
  timerange :: 'tr

text \<open>
  One render of the hook. The three imports from the shared module that it calls
  (\<open>unpackMetric\<close> through the transform, \<open>metricsToApiOptions\<close>,
  \<open>useInfrastructureNodeMetrics\<close>) are its first three arguments, then the argument of
  the source and React's memory.
\<close>

definition usePodMetricsTable ::
    "'row UnpackMetric \<Rightarrow>
     (MetricsQueryOptions \<Rightarrow> 'f \<Rightarrow> ('o, 'm) ApiOptions_scheme) \<Rightarrow>
     (('o, 'tr, 'row MetricsExplorerSeries, PodNodeMetricsRow) UseInfrastructureNodeMetricsOptions
        \<Rightarrow> ('d, 'n) NodeMetricsResult_scheme) \<Rightarrow>
     ('tr, 'f) UseNodeMetricsTableOptions \<Rightarrow> HookMemory \<Rightarrow> ('d, 'tr) PodMetricsTable" where
  "usePodMetricsTable unpackMetric metricsToApiOptions useInfrastructureNodeMetrics props mem =
     (case useState 0 (currentPageIndexCell mem) of
        (currentPageIndex0, setCell1) \<Rightarrow>
     (case useState \<lparr>field = ''averageCpuUsagePercent'', direction = ''desc''\<rparr>
             (sortStateCell mem) of
        (sortState0, setCell2) \<Rightarrow>
     (let podMetricsOptions =
            options (useMemo (\<lambda>u. metricsToApiOptions podMetricsQueryConfig
                                    (filterClauseDsl props)));
          r = useInfrastructureNodeMetrics
                \<lparr>metricsExplorerOptions = podMetricsOptions,
                 UseInfrastructureNodeMetricsOptions.timerange =
                   UseNodeMetricsTableOptions.timerange props,
                 transform = seriesToPodNodeMetricsRow unpackMetric,
                 UseInfrastructureNodeMetricsOptions.sortState = sortState0,
                 UseInfrastructureNodeMetricsOptions.currentPageIndex = currentPageIndex0\<rparr>
      in \<lparr>currentPageIndex = currentPageIndex0,
          data = NodeMetricsResult.data r,
          isLoading = NodeMetricsResult.isLoading r,
          setCurrentPageIndex = (\<lambda>v m. m\<lparr>currentPageIndexCell := setCell1 v\<rparr>),
          setSortState = (\<lambda>v m. m\<lparr>sortStateCell := setCell2 v\<rparr>),
          sortState = sortState0,
          timerange = UseNodeMetricsTableOptions.timerange props\<rparr>)))"

section \<open>The shared module, as the specification describes it\<close>

subsection \<open>Rows and their metrics\<close>

text \<open>
  Modelled from the spec: the type \<open>MetricsExplorerRow\<close> is declared in a module whose
  source is not at hand. The specification describes a row as a timestamped bucket
  holding zero or more named metric values, where a value may be absent or null.
\<close>

record MetricsExplorerRow =
  timestamp :: number
  metrics :: "(string \<times> number option) list"

text \<open>
  Modelled from the spec: \<open>unpackMetric\<close> is built by \<open>makeUnpackMetric\<close> of the shared
  module, whose source is not at hand. The specification describes it as unpacking a
  metric by field name, a missing value being null. The transform and the hook above
  take the function as an argument; this one supplies the rows of the examples.
\<close>

definition unpackMetric :: "MetricsExplorerRow UnpackMetric" where
  "unpackMetric row f =
     (case map_of (metrics row) (fieldName f) of None \<Rightarrow> None | Some v \<Rightarrow> v)"

subsection \<open>The fetching hook\<close>

text \<open>
  Modelled from the spec: the state of the request to the metrics query service, which
  the source of the shared module would hold. The request may suspend, fail, or return
  an ordered list of series; with each returned series stands the clock reading at the
  moment its row is computed.
\<close>

datatype 'series QueryState =
    Fetching
  | Failed
  | Ready "(number \<times> 'series) list"

text \<open>
  Modelled from the spec: \<open>useInfrastructureNodeMetrics\<close> is imported from the shared
  module, whose source is not at hand. By the specification a failure surfaces as
  \<open>isLoading = false\<close> with empty rows and is absorbed as no data; otherwise each
  returned series is transformed and the rows are sorted and paginated by the sort state
  and the page index. Sorting and pagination are not specified further and are the
  argument \<open>sortAndPaginate\<close>. While the request is suspended the hook is loading and
  has no rows yet.
\<close>

definition useInfrastructureNodeMetrics ::
    "(SortState \<Rightarrow> number \<Rightarrow> 'row list \<Rightarrow> 'row list) \<Rightarrow> 'series QueryState \<Rightarrow>
     ('o, 'tr, 'series, 'row) UseInfrastructureNodeMetricsOptions \<Rightarrow>
     'row list NodeMetricsResult" where
  "useInfrastructureNodeMetrics sortAndPaginate query opts =
     (case query of
        Fetching \<Rightarrow> \<lparr>NodeMetricsResult.data = [], NodeMetricsResult.isLoading = True\<rparr>
      | Failed \<Rightarrow> \<lparr>NodeMetricsResult.data = [], NodeMetricsResult.isLoading = False\<rparr>
      | Ready results \<Rightarrow>
          \<lparr>NodeMetricsResult.data =
             sortAndPaginate (UseInfrastructureNodeMetricsOptions.sortState opts)
               (UseInfrastructureNodeMetricsOptions.currentPageIndex opts)
               (map (\<lambda>(t, series). transform opts t series) results),
           NodeMetricsResult.isLoading = False\<rparr>)"

subsection \<open>Values for the examples\<close>

definition exampleRow ::
    "number \<Rightarrow> number option \<Rightarrow> number option \<Rightarrow> number option \<Rightarrow> MetricsExplorerRow" where
  "exampleRow t st cpu mem =
     \<lparr>timestamp = t,
      metrics = [(''kubernetes.pod.start_time'', st),
                 (''kubernetes.pod.cpu.usage.limit.pct'', cpu),
                 (''kubernetes.pod.memory.usage.bytes'', mem)]\<rparr>"

definition exampleSeries :: "MetricsExplorerRow MetricsExplorerSeries" where
  "exampleSeries =
     \<lparr>keys = Some [''uid-1'', ''pod-1''],
      rows = [exampleRow 1 (Some 100) (Some (1 / 10)) (Some 2000000),
              exampleRow 2 (Some 500) (Some (3 / 10)) (Some 4000000),
              exampleRow 3 None None None]\<rparr>"

text \<open>
  An argument of the hook, and stand-ins for \<open>metricsToApiOptions\<close> and for sorting and
  pagination, which the examples need as concrete functions.
\<close>

definition exampleProps :: "(string \<times> string, unit) UseNodeMetricsTableOptions" where
  "exampleProps =
     \<lparr>UseNodeMetricsTableOptions.timerange = (''now-1h'', ''now''), filterClauseDsl = ()\<rparr>"

definition exampleApiOptions ::
    "MetricsQueryOptions \<Rightarrow> unit \<Rightarrow> MetricsQueryOptions ApiOptions" where
  "exampleApiOptions config filterClause = \<lparr>options = config\<rparr>"

definition firstPage :: "SortState \<Rightarrow> number \<Rightarrow> 'row list \<Rightarrow> 'row list" where
  "firstPage s i rs = take 10 rs"

subsection \<open>The values a series holds for a metric\<close>

text \<open>
  The statements below speak of the non-null values of one metric over the rows of a
  series, in row order. This is notation for a library function, not a function of the
  module.
\<close>

abbreviation nonNullValues ::
    "'row UnpackMetric \<Rightarrow> PodMetricsField \<Rightarrow> 'row list \<Rightarrow> number list" where
  "nonNullValues um f rs \<equiv> List.map_filter (\<lambda>row. um row f) rs"

section \<open>Properties of the transform\<close>

subsection \<open>What the loop collects\<close>

lemma fold_collectRow_startTimeValues:
  "startTimeValues (fold (collectRow um) rs acc) =
     startTimeValues acc @ nonNullValues um KubernetesPodStartTime rs"
  by (induction rs arbitrary: acc)
     (auto simp: collectRow_def unpackMetrics_def push_def Let_def split: option.splits)

lemma fold_collectRow_cpuValues:
  "averageCpuUsagePercentValues (fold (collectRow um) rs acc) =
     averageCpuUsagePercentValues acc @ nonNullValues um KubernetesPodCpuUsageLimitPct rs"
  by (induction rs arbitrary: acc)
     (auto simp: collectRow_def unpackMetrics_def push_def Let_def split: option.splits)

lemma fold_collectRow_memoryValues:
  "averageMemoryUsageMegabytesValues (fold (collectRow um) rs acc) =
     averageMemoryUsageMegabytesValues acc @ nonNullValues um KubernetesPodMemoryUsageBytes rs"
  by (induction rs arbitrary: acc)
     (auto simp: collectRow_def unpackMetrics_def push_def Let_def split: option.splits)

lemma collectMetricValues_eq:
  "collectMetricValues um rs =
     \<lparr>startTimeValues = nonNullValues um KubernetesPodStartTime rs,
      averageCpuUsagePercentValues = nonNullValues um KubernetesPodCpuUsageLimitPct rs,
      averageMemoryUsageMegabytesValues = nonNullValues um KubernetesPodMemoryUsageBytes rs\<rparr>"
  by (simp add: collectMetricValues_def fold_collectRow_startTimeValues
      fold_collectRow_cpuValues fold_collectRow_memoryValues)

lemma nonNullValues_empty_iff:
  "nonNullValues um f rs = [] \<longleftrightarrow> (\<forall>row \<in> set rs. um row f = None)"
  by (induction rs) (auto split: option.splits)

lemma nonNullValues_append:
  "nonNullValues um f (xs @ ys) = nonNullValues um f xs @ nonNullValues um f ys"
  by (induction xs) (auto split: option.splits)

subsection \<open>The fields of the row, one by one\<close>

lemma seriesToPodNodeMetricsRow_uptime:
  "uptime (seriesToPodNodeMetricsRow um now series) =
     (if nonNullValues um KubernetesPodStartTime (rows series) = [] then None
      else Some (now - last (nonNullValues um KubernetesPodStartTime (rows series))))"
  by (cases "rows series")
     (auto simp: seriesToPodNodeMetricsRow_def rowWithoutMetrics_def calculateMetricAverages_def
        collectMetricValues_eq Let_def split: prod.splits)

lemma seriesToPodNodeMetricsRow_cpu:
  "averageCpuUsagePercent (seriesToPodNodeMetricsRow um now series) =
     (if nonNullValues um KubernetesPodCpuUsageLimitPct (rows series) = [] then None
      else Some (scaleUpPercentage
             (averageOfValues (nonNullValues um KubernetesPodCpuUsageLimitPct (rows series)))))"
  by (cases "rows series")
     (auto simp: seriesToPodNodeMetricsRow_def rowWithoutMetrics_def calculateMetricAverages_def
        collectMetricValues_eq Let_def split: prod.splits)

lemma seriesToPodNodeMetricsRow_memory:
  "averageMemoryUsageMegabytes (seriesToPodNodeMetricsRow um now series) =
     (if nonNullValues um KubernetesPodMemoryUsageBytes (rows series) = [] then None
      else Some (Math_floor
             (averageOfValues (nonNullValues um KubernetesPodMemoryUsageBytes (rows series))
                / 1000000)))"
  by (cases "rows series")
     (auto simp: seriesToPodNodeMetricsRow_def rowWithoutMetrics_def calculateMetricAverages_def
        collectMetricValues_eq Let_def split: prod.splits)

lemma seriesToPodNodeMetricsRow_keys:
  "id' (seriesToPodNodeMetricsRow um now series) = fst (destructure2 (nullish (keys series) []))"
  "name (seriesToPodNodeMetricsRow um now series) = snd (destructure2 (nullish (keys series) []))"
  by (auto simp: seriesToPodNodeMetricsRow_def rowWithoutMetrics_def Let_def split: prod.splits)

subsection \<open>The example rows\<close>

lemma unpackMetric_exampleRow:
  "unpackMetric (exampleRow t st cpu mem) KubernetesPodStartTime = st"
  "unpackMetric (exampleRow t st cpu mem) KubernetesPodCpuUsageLimitPct = cpu"
  "unpackMetric (exampleRow t st cpu mem) KubernetesPodMemoryUsageBytes = mem"
  by (simp_all add: unpackMetric_def exampleRow_def split: option.splits)

lemma exampleSeries_values:
  "nonNullValues unpackMetric KubernetesPodStartTime (rows exampleSeries) = [100, 500]"
  "nonNullValues unpackMetric KubernetesPodCpuUsageLimitPct (rows exampleSeries) = [1 / 10, 3 / 10]"
  "nonNullValues unpackMetric KubernetesPodMemoryUsageBytes (rows exampleSeries) = [2000000, 4000000]"
  by (simp_all add: exampleSeries_def unpackMetric_exampleRow)

section \<open>The claims\<close>

text \<open>
  C1. For every series whose list of rows is empty, \<open>seriesToPodNodeMetricsRow\<close> returns
  the row whose \<open>uptime\<close>, \<open>averageCpuUsagePercent\<close> and \<open>averageMemoryUsageMegabytes\<close>
  are null and whose \<open>id\<close> and \<open>name\<close> are the first and the second element of the
  series' keys. The transform has no failing path: its result is a row, not an error.
\<close>

theorem empty_rows_give_all_null_row:
  "rows series = [] \<and> keys series = Some ks \<and> 2 \<le> length ks \<longrightarrow>
     seriesToPodNodeMetricsRow um now series =
       \<lparr>uptime = None, averageCpuUsagePercent = None, averageMemoryUsageMegabytes = None,
        id' = Some (ks ! 0), name = Some (ks ! 1)\<rparr>"
  by (cases ks rule: destructure2.cases)
     (auto simp: seriesToPodNodeMetricsRow_def rowWithoutMetrics_def nullish_def)

theorem empty_rows_give_all_null_row_witness:
  "seriesToPodNodeMetricsRow unpackMetric 1000 \<lparr>keys = Some [''uid-1'', ''pod-1''], rows = []\<rparr> =
     \<lparr>uptime = None, averageCpuUsagePercent = None, averageMemoryUsageMegabytes = None,
      id' = Some ''uid-1'', name = Some ''pod-1''\<rparr>"
  using empty_rows_give_all_null_row
    [where series = "\<lparr>keys = Some [''uid-1'', ''pod-1''], rows = []\<rparr>"
       and ks = "[''uid-1'', ''pod-1'']" and um = unpackMetric and now = 1000]
  by simp

text \<open>
  C2. For every series with at least one non-null start-time value among its rows,
  \<open>uptime\<close> is the current time minus the last collected start-time value, in row
  order: the value of the last row that carries one, whatever the earlier rows hold. For
  the collected values \<open>[100, 500]\<close> and the current time \<open>now\<close> it is \<open>now - 500\<close>.
  If no row has a start-time value, \<open>uptime\<close> is null.
\<close>

theorem uptime_is_now_minus_last_start_time:
  "((\<exists>row \<in> set (rows series). um row KubernetesPodStartTime \<noteq> None) \<longrightarrow>
      uptime (seriesToPodNodeMetricsRow um now series) =
        Some (now - last (nonNullValues um KubernetesPodStartTime (rows series))))
   \<and> (\<forall>before row after v.
        rows series = before @ row # after \<and> um row KubernetesPodStartTime = Some v \<and>
        (\<forall>r \<in> set after. um r KubernetesPodStartTime = None) \<longrightarrow>
        uptime (seriesToPodNodeMetricsRow um now series) = Some (now - v))
   \<and> (nonNullValues um KubernetesPodStartTime (rows series) = [100, 500] \<longrightarrow>
        uptime (seriesToPodNodeMetricsRow um now series) = Some (now - 500))
   \<and> ((\<forall>row \<in> set (rows series). um row KubernetesPodStartTime = None) \<longrightarrow>
        uptime (seriesToPodNodeMetricsRow um now series) = None)"
proof (intro conjI impI allI)
  assume "\<exists>row \<in> set (rows series). um row KubernetesPodStartTime \<noteq> None"
  then have "nonNullValues um KubernetesPodStartTime (rows series) \<noteq> []"
    by (simp add: nonNullValues_empty_iff)
  then show "uptime (seriesToPodNodeMetricsRow um now series) =
        Some (now - last (nonNullValues um KubernetesPodStartTime (rows series)))"
    by (simp add: seriesToPodNodeMetricsRow_uptime)
next
  fix before row after v
  assume h: "rows series = before @ row # after \<and> um row KubernetesPodStartTime = Some v \<and>
        (\<forall>r \<in> set after. um r KubernetesPodStartTime = None)"
  then have "nonNullValues um KubernetesPodStartTime after = []"
    by (simp add: nonNullValues_empty_iff)
  with h have "nonNullValues um KubernetesPodStartTime (rows series) =
      nonNullValues um KubernetesPodStartTime before @ [v]"
    by (simp add: nonNullValues_append)
  then show "uptime (seriesToPodNodeMetricsRow um now series) = Some (now - v)"
    by (simp add: seriesToPodNodeMetricsRow_uptime)
next
  assume "nonNullValues um KubernetesPodStartTime (rows series) = [100, 500]"
  then show "uptime (seriesToPodNodeMetricsRow um now series) = Some (now - 500)"
    by (simp add: seriesToPodNodeMetricsRow_uptime)
next
  assume "\<forall>row \<in> set (rows series). um row KubernetesPodStartTime = None"
  then have "nonNullValues um KubernetesPodStartTime (rows series) = []"
    by (simp add: nonNullValues_empty_iff)
  then show "uptime (seriesToPodNodeMetricsRow um now series) = None"
    by (simp add: seriesToPodNodeMetricsRow_uptime)
qed

text \<open>
  At the clock reading 1000: the start times 100, 500 and null give 500; the start times
  500 and 100 give 900, from the last value and not from the greatest.
\<close>

theorem uptime_is_now_minus_last_start_time_witness:
  "uptime (seriesToPodNodeMetricsRow unpackMetric 1000 exampleSeries) = Some 500
   \<and> uptime (seriesToPodNodeMetricsRow unpackMetric 1000
        \<lparr>keys = Some [''uid-2'', ''pod-2''],
         rows = [exampleRow 1 (Some 500) None None, exampleRow 2 (Some 100) None None]\<rparr>)
      = Some 900"
  using uptime_is_now_minus_last_start_time
      [where series = exampleSeries and um = unpackMetric and now = 1000]
    uptime_is_now_minus_last_start_time
      [where series = "\<lparr>keys = Some [''uid-2'', ''pod-2''],
         rows = [exampleRow 1 (Some 500) None None, exampleRow 2 (Some 100) None None]\<rparr>"
       and um = unpackMetric and now = 1000]
  by (simp add: exampleSeries_def unpackMetric_exampleRow)

text \<open>
  C3. For every series with at least one non-null CPU value, \<open>averageCpuUsagePercent\<close>
  is the arithmetic mean of the collected values multiplied by 100; for the values
  \<open>[0.1, 0.3]\<close> it is 20. If no row has a CPU value, it is null.
\<close>

theorem cpu_is_mean_scaled_to_percent:
  "((\<exists>row \<in> set (rows series). um row KubernetesPodCpuUsageLimitPct \<noteq> None) \<longrightarrow>
      averageCpuUsagePercent (seriesToPodNodeMetricsRow um now series) =
        Some (sum_list (nonNullValues um KubernetesPodCpuUsageLimitPct (rows series))
              / real (length (nonNullValues um KubernetesPodCpuUsageLimitPct (rows series)))
              * 100))
   \<and> (nonNullValues um KubernetesPodCpuUsageLimitPct (rows series) = [1 / 10, 3 / 10] \<longrightarrow>
        averageCpuUsagePercent (seriesToPodNodeMetricsRow um now series) = Some 20)
   \<and> ((\<forall>row \<in> set (rows series). um row KubernetesPodCpuUsageLimitPct = None) \<longrightarrow>
        averageCpuUsagePercent (seriesToPodNodeMetricsRow um now series) = None)"
proof (intro conjI impI)
  assume "\<exists>row \<in> set (rows series). um row KubernetesPodCpuUsageLimitPct \<noteq> None"
  then have "nonNullValues um KubernetesPodCpuUsageLimitPct (rows series) \<noteq> []"
    by (simp add: nonNullValues_empty_iff)
  then show "averageCpuUsagePercent (seriesToPodNodeMetricsRow um now series) =
        Some (sum_list (nonNullValues um KubernetesPodCpuUsageLimitPct (rows series))
              / real (length (nonNullValues um KubernetesPodCpuUsageLimitPct (rows series)))
              * 100)"
    by (simp add: seriesToPodNodeMetricsRow_cpu scaleUpPercentage_def averageOfValues_def)
next
  assume "nonNullValues um KubernetesPodCpuUsageLimitPct (rows series) = [1 / 10, 3 / 10]"
  then show "averageCpuUsagePercent (seriesToPodNodeMetricsRow um now series) = Some 20"
    by (simp add: seriesToPodNodeMetricsRow_cpu scaleUpPercentage_def averageOfValues_def)
next
  assume "\<forall>row \<in> set (rows series). um row KubernetesPodCpuUsageLimitPct = None"
  then have "nonNullValues um KubernetesPodCpuUsageLimitPct (rows series) = []"
    by (simp add: nonNullValues_empty_iff)
  then show "averageCpuUsagePercent (seriesToPodNodeMetricsRow um now series) = None"
    by (simp add: seriesToPodNodeMetricsRow_cpu)
qed

theorem cpu_is_mean_scaled_to_percent_witness:
  "averageCpuUsagePercent (seriesToPodNodeMetricsRow unpackMetric 1000 exampleSeries) = Some 20"
  using cpu_is_mean_scaled_to_percent [where series = exampleSeries and um = unpackMetric and now = 1000]
  by (simp add: exampleSeries_values)

text \<open>
  C4. For every series with at least one non-null memory value,
  \<open>averageMemoryUsageMegabytes\<close> is the floor of the arithmetic mean of the collected
  byte values divided by 1000000; for the values \<open>[2000000, 4000000]\<close> it is 3. If no
  row has a memory value, it is null.
\<close>

theorem memory_is_floor_of_mean_in_megabytes:
  "((\<exists>row \<in> set (rows series). um row KubernetesPodMemoryUsageBytes \<noteq> None) \<longrightarrow>
      averageMemoryUsageMegabytes (seriesToPodNodeMetricsRow um now series) =
        Some (real_of_int
          \<lfloor>(sum_list (nonNullValues um KubernetesPodMemoryUsageBytes (rows series))
              / real (length (nonNullValues um KubernetesPodMemoryUsageBytes (rows series))))
            / 1000000\<rfloor>))
   \<and> (nonNullValues um KubernetesPodMemoryUsageBytes (rows series) = [2000000, 4000000] \<longrightarrow>
        averageMemoryUsageMegabytes (seriesToPodNodeMetricsRow um now series) = Some 3)
   \<and> ((\<forall>row \<in> set (rows series). um row KubernetesPodMemoryUsageBytes = None) \<longrightarrow>
        averageMemoryUsageMegabytes (seriesToPodNodeMetricsRow um now series) = None)"
proof (intro conjI impI)
  assume "\<exists>row \<in> set (rows series). um row KubernetesPodMemoryUsageBytes \<noteq> None"
  then have "nonNullValues um KubernetesPodMemoryUsageBytes (rows series) \<noteq> []"
    by (simp add: nonNullValues_empty_iff)
  then show "averageMemoryUsageMegabytes (seriesToPodNodeMetricsRow um now series) =
        Some (real_of_int
          \<lfloor>(sum_list (nonNullValues um KubernetesPodMemoryUsageBytes (rows series))
              / real (length (nonNullValues um KubernetesPodMemoryUsageBytes (rows series))))
            / 1000000\<rfloor>)"
    by (simp add: seriesToPodNodeMetricsRow_memory Math_floor_def averageOfValues_def)
next
  assume "nonNullValues um KubernetesPodMemoryUsageBytes (rows series) = [2000000, 4000000]"
  then show "averageMemoryUsageMegabytes (seriesToPodNodeMetricsRow um now series) = Some 3"
    by (simp add: seriesToPodNodeMetricsRow_memory Math_floor_def averageOfValues_def)
next
  assume "\<forall>row \<in> set (rows series). um row KubernetesPodMemoryUsageBytes = None"
  then have "nonNullValues um KubernetesPodMemoryUsageBytes (rows series) = []"
    by (simp add: nonNullValues_empty_iff)
  then show "averageMemoryUsageMegabytes (seriesToPodNodeMetricsRow um now series) = None"
    by (simp add: seriesToPodNodeMetricsRow_memory)
qed

theorem memory_is_floor_of_mean_in_megabytes_witness:
  "averageMemoryUsageMegabytes (seriesToPodNodeMetricsRow unpackMetric 1000 exampleSeries) = Some 3"
  using memory_is_floor_of_mean_in_megabytes [where series = exampleSeries and um = unpackMetric and now = 1000]
  by (simp add: exampleSeries_values)

text \<open>
  C5, as amended. Two applications of \<open>seriesToPodNodeMetricsRow\<close> to the same series, at
  the clock readings \<open>t1\<close> and \<open>t2\<close>, give rows that agree on \<open>id\<close>, \<open>name\<close>,
  \<open>averageCpuUsagePercent\<close> and \<open>averageMemoryUsageMegabytes\<close>; their \<open>uptime\<close> is null
  in both or differs by \<open>t2 - t1\<close>. The rows are equal when the clock shows the same time
  in both applications, or when the series has no start-time value.
\<close>

theorem recomputed_row_differs_only_by_clock:
  "seriesToPodNodeMetricsRow um t2 series =
     (seriesToPodNodeMetricsRow um t1 series)
       \<lparr>uptime := map_option (\<lambda>u. u + (t2 - t1))
                    (uptime (seriesToPodNodeMetricsRow um t1 series))\<rparr>"
  by (cases "rows series")
     (auto simp: seriesToPodNodeMetricsRow_def rowWithoutMetrics_def calculateMetricAverages_def
        Let_def split: prod.splits)

theorem recomputed_rows_differ_when_clock_advances:
  "seriesToPodNodeMetricsRow unpackMetric 1000 exampleSeries \<noteq>
   seriesToPodNodeMetricsRow unpackMetric 2000 exampleSeries"
proof
  assume "seriesToPodNodeMetricsRow unpackMetric 1000 exampleSeries =
          seriesToPodNodeMetricsRow unpackMetric 2000 exampleSeries"
  then have "uptime (seriesToPodNodeMetricsRow unpackMetric 1000 exampleSeries) =
             uptime (seriesToPodNodeMetricsRow unpackMetric 2000 exampleSeries)"
    by simp
  then show False
    by (simp add: seriesToPodNodeMetricsRow_uptime exampleSeries_values)
qed

text \<open>
  C6. For every series, each of the three metric fields of the row is null exactly when
  no row of the series has a non-null value for that metric, whatever the other two
  metrics hold. In particular a series without any value gives the row with three nulls.
\<close>

theorem metric_field_null_iff_no_value:
  "(uptime (seriesToPodNodeMetricsRow um now series) = None \<longleftrightarrow>
      (\<forall>row \<in> set (rows series). um row KubernetesPodStartTime = None))
   \<and> (averageCpuUsagePercent (seriesToPodNodeMetricsRow um now series) = None \<longleftrightarrow>
      (\<forall>row \<in> set (rows series). um row KubernetesPodCpuUsageLimitPct = None))
   \<and> (averageMemoryUsageMegabytes (seriesToPodNodeMetricsRow um now series) = None \<longleftrightarrow>
      (\<forall>row \<in> set (rows series). um row KubernetesPodMemoryUsageBytes = None))"
  by (simp add: seriesToPodNodeMetricsRow_uptime seriesToPodNodeMetricsRow_cpu
      seriesToPodNodeMetricsRow_memory nonNullValues_empty_iff)

theorem metric_field_null_iff_no_value_witness:
  "uptime (seriesToPodNodeMetricsRow unpackMetric 1000
      \<lparr>keys = Some [''uid-1'', ''pod-1''],
       rows = [exampleRow 1 None (Some (1 / 10)) None, exampleRow 2 None None None]\<rparr>) = None
   \<and> averageCpuUsagePercent (seriesToPodNodeMetricsRow unpackMetric 1000
      \<lparr>keys = Some [''uid-1'', ''pod-1''],
       rows = [exampleRow 1 None (Some (1 / 10)) None, exampleRow 2 None None None]\<rparr>) \<noteq> None
   \<and> averageMemoryUsageMegabytes (seriesToPodNodeMetricsRow unpackMetric 1000
      \<lparr>keys = Some [''uid-1'', ''pod-1''],
       rows = [exampleRow 1 None (Some (1 / 10)) None, exampleRow 2 None None None]\<rparr>) = None"
  using metric_field_null_iff_no_value
    [where um = unpackMetric and now = 1000 and series = "\<lparr>keys = Some [''uid-1'', ''pod-1''],
       rows = [exampleRow 1 None (Some (1 / 10)) None, exampleRow 2 None None None]\<rparr>"]
  by (simp add: unpackMetric_exampleRow)

text \<open>
  C10. For every series whose \<open>keys\<close> are absent or shorter than two elements,
  \<open>seriesToPodNodeMetricsRow\<close> still returns a row: \<open>id\<close> and \<open>name\<close> are undefined
  where the key is missing, and the three metric fields are those of the same series
  with two keys.
\<close>

theorem short_or_absent_keys_leave_id_name_undefined:
  "(keys series = None \<or> keys series = Some [] \<longrightarrow>
      id' (seriesToPodNodeMetricsRow um now series) = None \<and>
      name (seriesToPodNodeMetricsRow um now series) = None)
   \<and> (keys series = Some [k] \<longrightarrow>
      id' (seriesToPodNodeMetricsRow um now series) = Some k \<and>
      name (seriesToPodNodeMetricsRow um now series) = None)
   \<and> MetricAverages.truncate (seriesToPodNodeMetricsRow um now series) =
       MetricAverages.truncate (seriesToPodNodeMetricsRow um now (series\<lparr>keys := Some [a, b]\<rparr>))"
  by (auto simp: seriesToPodNodeMetricsRow_keys nullish_def seriesToPodNodeMetricsRow_def
      rowWithoutMetrics_def MetricAverages.truncate_def Let_def split: prod.splits)

theorem short_or_absent_keys_leave_id_name_undefined_witness:
  "id' (seriesToPodNodeMetricsRow unpackMetric 1000 (exampleSeries\<lparr>keys := None\<rparr>)) = None
   \<and> name (seriesToPodNodeMetricsRow unpackMetric 1000 (exampleSeries\<lparr>keys := None\<rparr>)) = None
   \<and> id' (seriesToPodNodeMetricsRow unpackMetric 1000 (exampleSeries\<lparr>keys := Some [''uid-1'']\<rparr>))
       = Some ''uid-1''
   \<and> name (seriesToPodNodeMetricsRow unpackMetric 1000 (exampleSeries\<lparr>keys := Some [''uid-1'']\<rparr>))
       = None"
  using short_or_absent_keys_leave_id_name_undefined
      [where series = "exampleSeries\<lparr>keys := None\<rparr>" and um = unpackMetric and now = 1000]
    short_or_absent_keys_leave_id_name_undefined
      [where series = "exampleSeries\<lparr>keys := Some [''uid-1'']\<rparr>" and k = "''uid-1''"
         and um = unpackMetric and now = 1000]
  by simp

text \<open>
  C7. When the metrics query fails, the hook shows it to its caller as the end of loading
  with no data: \<open>isLoading\<close> goes from true to false and the rows are empty. Of what
  the fetching hook returns only \<open>data\<close> and \<open>isLoading\<close> reach the caller of
  \<open>usePodMetricsTable\<close>, so no error object does, whatever else the fetching hook holds.
\<close>

theorem hook_passes_on_data_and_isLoading_only:
  "data (usePodMetricsTable um mta (useInfrastructureNodeMetrics page Failed) props mem) = []
   \<and> isLoading (usePodMetricsTable um mta (useInfrastructureNodeMetrics page Failed) props mem)
       = False
   \<and> isLoading (usePodMetricsTable um mta (useInfrastructureNodeMetrics page Fetching) props mem)
       = True
   \<and> ((\<forall>opts. NodeMetricsResult.data (hook1 opts) = NodeMetricsResult.data (hook2 opts) \<and>
              NodeMetricsResult.isLoading (hook1 opts) = NodeMetricsResult.isLoading (hook2 opts))
        \<longrightarrow> usePodMetricsTable um mta hook1 props mem = usePodMetricsTable um mta hook2 props mem)"
  by (simp add: usePodMetricsTable_def useInfrastructureNodeMetrics_def useState_def
      useMemo_def Let_def)

theorem hook_passes_on_data_and_isLoading_only_witness:
  "usePodMetricsTable unpackMetric exampleApiOptions
      (\<lambda>opts. \<lparr>NodeMetricsResult.data = [], NodeMetricsResult.isLoading = False,
                \<dots> = ''Internal Server Error''\<rparr>)
      exampleProps firstRender =
   usePodMetricsTable unpackMetric exampleApiOptions
      (useInfrastructureNodeMetrics firstPage Failed) exampleProps firstRender"
  using hook_passes_on_data_and_isLoading_only
    [where ?hook1.0 = "\<lambda>opts. \<lparr>NodeMetricsResult.data = [], NodeMetricsResult.isLoading = False,
                \<dots> = ''Internal Server Error''\<rparr>"
       and ?hook2.0 = "useInfrastructureNodeMetrics firstPage Failed"
       and um = unpackMetric and mta = exampleApiOptions and props = exampleProps
       and mem = firstRender]
  by (simp add: useInfrastructureNodeMetrics_def)

text \<open>
  C8. For every input, \<open>usePodMetricsTable\<close> returns an object with exactly the fields
  \<open>currentPageIndex\<close>, \<open>data\<close>, \<open>isLoading\<close>, \<open>setCurrentPageIndex\<close>, \<open>setSortState\<close>,
  \<open>sortState\<close> and \<open>timerange\<close>, and the \<open>timerange\<close> returned is the one passed in.
\<close>

theorem hook_returns_seven_fields:
  "timerange (usePodMetricsTable um mta hook props mem) =
     UseNodeMetricsTableOptions.timerange props
   \<and> usePodMetricsTable um mta hook props mem =
     \<lparr>currentPageIndex = currentPageIndex (usePodMetricsTable um mta hook props mem),
      data = data (usePodMetricsTable um mta hook props mem),
      isLoading = isLoading (usePodMetricsTable um mta hook props mem),
      setCurrentPageIndex = setCurrentPageIndex (usePodMetricsTable um mta hook props mem),
      setSortState = setSortState (usePodMetricsTable um mta hook props mem),
      sortState = sortState (usePodMetricsTable um mta hook props mem),
      timerange = UseNodeMetricsTableOptions.timerange props\<rparr>"
  by (simp add: usePodMetricsTable_def useState_def Let_def)

text \<open>
  C9. On the first render, before any setter has been called, \<open>currentPageIndex\<close> is 0
  and \<open>sortState\<close> is \<open>{field: 'averageCpuUsagePercent', direction: 'desc'}\<close>. Once a
  setter has been called, the next render shows the value it was called with.
\<close>

theorem hook_initial_state:
  "currentPageIndex (usePodMetricsTable um mta hook props firstRender) = 0
   \<and> sortState (usePodMetricsTable um mta hook props firstRender) =
       \<lparr>field = ''averageCpuUsagePercent'', direction = ''desc''\<rparr>
   \<and> currentPageIndex (usePodMetricsTable um mta hook props
        (setCurrentPageIndex (usePodMetricsTable um mta hook props firstRender) i firstRender)) = i
   \<and> sortState (usePodMetricsTable um mta hook props
        (setSortState (usePodMetricsTable um mta hook props firstRender) s firstRender)) = s"
  by (simp add: usePodMetricsTable_def useState_def nullish_def firstRender_def Let_def)

end
